theory Spec2Isabelle
  imports Main "HOL-Library.AList"
begin

section \<open>JavaScript values\<close>

text \<open>
  The module is JavaScript: every argument is a dynamically typed value, and the code
  decides by strict equality (\<^verbatim>\<open>===\<close>), by truthiness (\<^verbatim>\<open>if (x)\<close>, \<^verbatim>\<open>!x\<close>,
  \<^verbatim>\<open>a || b\<close>) and by the string a value becomes under \<^verbatim>\<open>+\<close>. The values are
  modelled by one datatype.
  \<^item> Numbers are the integers plus \<open>NaN\<close>; \<open>NaN\<close> is the one value that is not
    strictly equal to itself, and \<open>0\<close> and \<open>NaN\<close> are the falsy numbers.
  \<^item> Arrays, plain objects and functions are reference values: they carry the
    reference that strict equality compares. An array carries its elements, a plain
    object its own properties in creation order, a function its source text. What a
    call of a function does is not part of the value: it is given by the functions of
    the program (see the registry below).
\<close>

datatype jsval =
    JUndefined
  | JNull
  | JBool bool
  | JNum int
  | JNaN
  | JStr string
  | JArray nat "jsval list"
  | JObject nat "(string \<times> jsval) list"
  | JFunction nat string

text \<open>\<^verbatim>\<open>a === b\<close>: no coercion; reference values are equal when they are the same
  reference.\<close>

fun strict_eq :: "jsval \<Rightarrow> jsval \<Rightarrow> bool" where
  "strict_eq JUndefined JUndefined = True"
| "strict_eq JNull JNull = True"
| "strict_eq (JBool a) (JBool b) = (a = b)"
| "strict_eq (JNum a) (JNum b) = (a = b)"
| "strict_eq (JStr a) (JStr b) = (a = b)"
| "strict_eq (JArray r _) (JArray r' _) = (r = r')"
| "strict_eq (JObject r _) (JObject r' _) = (r = r')"
| "strict_eq (JFunction r _) (JFunction r' _) = (r = r')"
| "strict_eq _ _ = False"

text \<open>\<^verbatim>\<open>a !== b\<close>.\<close>

definition strict_neq :: "jsval \<Rightarrow> jsval \<Rightarrow> bool" where
  "strict_neq a b = (\<not> strict_eq a b)"

text \<open>Truthiness: \<^verbatim>\<open>undefined\<close>, \<^verbatim>\<open>null\<close>, \<^verbatim>\<open>false\<close>, \<^verbatim>\<open>0\<close>, \<^verbatim>\<open>NaN\<close> and
  \<^verbatim>\<open>''\<close> are falsy, everything else is truthy.\<close>

fun truthy :: "jsval \<Rightarrow> bool" where
  "truthy JUndefined = False"
| "truthy JNull = False"
| "truthy (JBool b) = b"
| "truthy (JNum n) = (n \<noteq> 0)"
| "truthy JNaN = False"
| "truthy (JStr s) = (s \<noteq> [])"
| "truthy (JArray _ _) = True"
| "truthy (JObject _ _) = True"
| "truthy (JFunction _ _) = True"

text \<open>\<^verbatim>\<open>Array.prototype.join\<close> on strings: the pieces with the separator between them.\<close>

fun join :: "string \<Rightarrow> string list \<Rightarrow> string" where
  "join sep [] = []"
| "join sep [x] = x"
| "join sep (x # y # ys) = x @ sep @ join sep (y # ys)"

text \<open>Decimal digits of a natural number, and the decimal form of an integer (the
  form JavaScript prints for an integer below \<open>10\<^sup>2\<^sup>1\<close> in magnitude).\<close>

definition digit :: "nat \<Rightarrow> char" where
  "digit d = ''0123456789'' ! d"

fun string_of_nat :: "nat \<Rightarrow> string" where
  "string_of_nat n =
     (if n < 10 then [digit n] else string_of_nat (n div 10) @ [digit (n mod 10)])"

declare string_of_nat.simps [simp del]

definition string_of_int :: "int \<Rightarrow> string" where
  "string_of_int i = (if i < 0 then CHR ''-'' # string_of_nat (nat (- i)) else string_of_nat (nat i))"

text \<open>The string a value becomes when it is concatenated to a string (\<^verbatim>\<open>'' + v\<close>).
  An array joins its elements with a comma, \<^verbatim>\<open>null\<close> and \<^verbatim>\<open>undefined\<close> elements
  giving the empty string; a plain object gives \<^verbatim>\<open>[object Object]\<close>; a function
  gives its source text.\<close>

fun to_str :: "jsval \<Rightarrow> string" where
  "to_str JUndefined = ''undefined''"
| "to_str JNull = ''null''"
| "to_str (JBool b) = (if b then ''true'' else ''false'')"
| "to_str (JNum n) = string_of_int n"
| "to_str JNaN = ''NaN''"
| "to_str (JStr s) = s"
| "to_str (JArray r xs) =
     join '','' (map (\<lambda>x. if x = JUndefined \<or> x = JNull then [] else to_str x) xs)"
| "to_str (JObject r ps) = ''[object Object]''"
| "to_str (JFunction r src) = src"

text \<open>\<^verbatim>\<open>xs.join(sep)\<close> on an array of values.\<close>

definition join_values :: "string \<Rightarrow> jsval list \<Rightarrow> string" where
  "join_values sep xs =
     join sep (map (\<lambda>x. if x = JUndefined \<or> x = JNull then [] else to_str x) xs)"

section \<open>Validation rules\<close>

datatype error = Error string | TypeError

record userCtx =
  name :: jsval

type_synonym validator = "jsval \<Rightarrow> jsval \<Rightarrow> jsval \<Rightarrow> jsval \<Rightarrow> userCtx \<Rightarrow> error + unit"

text \<open>\<^verbatim>\<open>exports.matchUsername\<close> returns the validator below; a validator returns
  nothing (\<open>Inr ()\<close>) or throws (\<open>Inl\<close> the error).\<close>

definition matchUsername :: validator where
  "matchUsername newDoc oldDoc newVal oldVal userCtx =
     (let name = userCtx.name userCtx in
      if strict_neq name newVal then
        if (strict_neq name JNull \<and> strict_neq name JUndefined \<and> strict_neq name (JStr [])) \<or>
           (strict_neq newVal JNull \<and> strict_neq newVal JUndefined \<and> strict_neq newVal (JStr []))
        then Inl (Error ''Field does not match your username'')
        else Inr ()
      else Inr ())"

definition uneditable :: validator where
  "uneditable newDoc oldDoc newValue oldValue userCtx =
     (if truthy oldDoc then
        if strict_neq newValue oldValue
        then Inl (Error ''Field cannot be edited once created'')
        else Inr ()
      else Inr ())"

text \<open>Modelled from the spec: \<^verbatim>\<open>utils.isArray\<close> (module \<^verbatim>\<open>./utils\<close>) tells an ordered
  sequence of segments from a single segment.\<close>

fun isArray :: "jsval \<Rightarrow> bool" where
  "isArray (JArray r xs) = True"
| "isArray _ = False"

text \<open>The segments of a path argument after \<^verbatim>\<open>if (!utils.isArray(path)) path = [path]\<close>.\<close>

fun segments :: "jsval \<Rightarrow> jsval list" where
  "segments (JArray r xs) = xs"
| "segments p = [p]"

text \<open>\<^verbatim>\<open>exports.usernameMatchesField\<close>. The property-path lookup \<^verbatim>\<open>utils.getPropertyPath\<close>
  belongs to the module \<^verbatim>\<open>./utils\<close>; it is the parameter \<open>getPropertyPath\<close>.\<close>

definition usernameMatchesField ::
  "(jsval \<Rightarrow> jsval list \<Rightarrow> jsval) \<Rightarrow> jsval \<Rightarrow> validator" where
  "usernameMatchesField getPropertyPath path newDoc oldDoc newValue oldValue userCtx =
     (let path = segments path;
          field = getPropertyPath newDoc path in
      if strict_neq (userCtx.name userCtx) field
      then Inl (Error (''username does not match field: '' @ join_values ''.'' path))
      else Inr ())"

text \<open>Modelled from the spec: a property-path lookup that resolves a path against a
  document object, one property per segment; a missing property is \<^verbatim>\<open>undefined\<close>.\<close>

fun getProperty :: "jsval \<Rightarrow> jsval \<Rightarrow> jsval" where
  "getProperty (JObject r ps) k = (case map_of ps (to_str k) of Some v \<Rightarrow> v | None \<Rightarrow> JUndefined)"
| "getProperty _ k = JUndefined"

fun getPropertyPath :: "jsval \<Rightarrow> jsval list \<Rightarrow> jsval" where
  "getPropertyPath obj [] = obj"
| "getPropertyPath obj (k # ks) = getPropertyPath (getProperty obj k) ks"

text \<open>The spec's "empty-like" values: \<^verbatim>\<open>null\<close>, \<^verbatim>\<open>undefined\<close> and the empty string.\<close>

definition empty_like :: "jsval \<Rightarrow> bool" where
  "empty_like v = (v = JNull \<or> v = JUndefined \<or> v = JStr [])"

section \<open>Markup utilities\<close>

text \<open>
  A field descriptor and the descriptor of an embedded document's type share the
  attributes \<open>label\<close>, \<open>description\<close>, \<open>hint\<close>, \<open>required\<close> and \<open>name\<close>; an absent
  attribute is \<^verbatim>\<open>undefined\<close>. A field adds its widget and its type. The widget's
  \<^verbatim>\<open>toHTML\<close> method belongs to the widget library: the renderers take it as the
  parameter \<open>toHTML\<close>, applied to the widget first, and it returns a string.
\<close>

record descr =
  label :: jsval
  description :: jsval
  hint :: jsval
  required :: jsval
  name :: jsval

record widget =
  type :: jsval

record field = descr +
  widget :: widget
  type :: descr

type_synonym toHTML = "widget \<Rightarrow> string \<Rightarrow> jsval \<Rightarrow> jsval \<Rightarrow> field \<Rightarrow> string"

text \<open>An entry of an error list: its \<^verbatim>\<open>message\<close> property (\<^verbatim>\<open>undefined\<close> when it has
  none) and what its \<^verbatim>\<open>toString()\<close> returns. The list itself may be absent (\<open>None\<close>).\<close>

record err =
  message :: jsval
  toString :: string

text \<open>\<^verbatim>\<open>a || b\<close>.\<close>

definition or_js :: "jsval \<Rightarrow> jsval \<Rightarrow> jsval" where
  "or_js a b = (if truthy a then a else b)"

fun errorHTML_loop :: "err list \<Rightarrow> string \<Rightarrow> string" where
  \<open>errorHTML_loop [] html = html\<close>
| \<open>errorHTML_loop (e # es) html =
     errorHTML_loop es
       (html @ ''<li class="error_msg">'' @
          to_str (or_js (message e) (JStr (toString e))) @
        ''</li>'')\<close>

definition errorHTML :: "err list option \<Rightarrow> string" where
  \<open>errorHTML errors =
     (case errors of
        None \<Rightarrow> []
      | Some es \<Rightarrow>
          if es \<noteq> [] then errorHTML_loop es ''<ul class="errors">'' @ ''</ul>''
          else [])\<close>

text \<open>\<^verbatim>\<open>toUpperCase\<close> on a character (ASCII letters) and \<^verbatim>\<open>replace(/_/g, ' ')\<close>.\<close>

definition toUpperCase :: "char \<Rightarrow> char" where
  "toUpperCase c =
     (case map_of (zip ''abcdefghijklmnopqrstuvwxyz'' ''ABCDEFGHIJKLMNOPQRSTUVWXYZ'') c of
        None \<Rightarrow> c
      | Some u \<Rightarrow> u)"

definition replace_underscores :: "string \<Rightarrow> string" where
  "replace_underscores s = map (\<lambda>c. if c = CHR ''_'' then CHR '' '' else c) s"

text \<open>\<^verbatim>\<open>name.substr(0, 1).toUpperCase() + name.substr(1).replace(/_/g, ' ')\<close>.\<close>

definition capitalized :: "string \<Rightarrow> string" where
  "capitalized name = map toUpperCase (take 1 name) @ replace_underscores (drop 1 name)"
  for name

definition labelText :: "'a descr_scheme \<Rightarrow> string \<Rightarrow> jsval" where
  "labelText field name =
     (if truthy (label field) then label field else JStr (capitalized name))"
  for name

text \<open>\<^verbatim>\<open>labelHTML(field, name, id)\<close>; a call without \<^verbatim>\<open>id\<close> passes \<^verbatim>\<open>undefined\<close>.\<close>

definition labelHTML :: "'a descr_scheme \<Rightarrow> string \<Rightarrow> jsval \<Rightarrow> string" where
  \<open>labelHTML field name id =
     ''<label for="'' @ to_str (or_js id (JStr (''id_'' @ name))) @ ''">'' @
       to_str (labelText field name) @
     ''</label>''\<close>
  for name id

definition descriptionHTML :: "'a descr_scheme \<Rightarrow> string" where
  \<open>descriptionHTML obj =
     (if truthy (description obj)
      then ''<div class="description">'' @ to_str (description obj) @ ''</div>''
      else [])\<close>

definition hintHTML :: "'a descr_scheme \<Rightarrow> string" where
  \<open>hintHTML obj =
     (if truthy (hint obj)
      then ''<div class="hint">'' @ to_str (hint obj) @ ''</div>''
      else [])\<close>

definition classes :: "'a descr_scheme \<Rightarrow> err list option \<Rightarrow> string list" where
  "classes field errors =
     (let r = [''field''];
          r = (case errors of None \<Rightarrow> r | Some es \<Rightarrow> if es \<noteq> [] then r @ [''error''] else r);
          r = (if truthy (required field) then r @ [''required''] else r)
      in r)"

section \<open>The registry of initialization markup\<close>

text \<open>
  \<^verbatim>\<open>exports._initialization_markup\<close> is an object used as a dictionary, created as
  \<^verbatim>\<open>{}\<close>. It is modelled by its own properties in creation order. Reading a property
  that is not its own reads \<^verbatim>\<open>Object.prototype\<close>, whose members are functions (and,
  for \<^verbatim>\<open>__proto__\<close>, the prototype object itself); reading a property found in
  neither gives \<^verbatim>\<open>undefined\<close>. Writing an own property keeps its place, writing a
  new one appends it.
\<close>

type_synonym registry = "(string \<times> jsval) list"

definition native :: "string \<Rightarrow> string" where
  "native f = ''function '' @ f @ ''() { [native code] }''"

definition Object_prototype :: "(string \<times> jsval) list" where
  "Object_prototype =
     [(''constructor'', JFunction 1000 (native ''Object'')),
      (''toString'', JFunction 1001 (native ''toString'')),
      (''toLocaleString'', JFunction 1002 (native ''toLocaleString'')),
      (''valueOf'', JFunction 1003 (native ''valueOf'')),
      (''hasOwnProperty'', JFunction 1004 (native ''hasOwnProperty'')),
      (''isPrototypeOf'', JFunction 1005 (native ''isPrototypeOf'')),
      (''propertyIsEnumerable'', JFunction 1006 (native ''propertyIsEnumerable'')),
      (''__defineGetter__'', JFunction 1007 (native ''__defineGetter__'')),
      (''__defineSetter__'', JFunction 1008 (native ''__defineSetter__'')),
      (''__lookupGetter__'', JFunction 1009 (native ''__lookupGetter__'')),
      (''__lookupSetter__'', JFunction 1010 (native ''__lookupSetter__'')),
      (''__proto__'', JObject 1011 [])]"

text \<open>\<^verbatim>\<open>obj[key]\<close> on the registry object.\<close>

definition get :: "registry \<Rightarrow> string \<Rightarrow> jsval" where
  "get obj key =
     (case map_of obj key of
        Some v \<Rightarrow> v
      | None \<Rightarrow> (case map_of Object_prototype key of Some v \<Rightarrow> v | None \<Rightarrow> JUndefined))"

definition registerInitializationMarkup :: "string \<Rightarrow> jsval \<Rightarrow> registry \<Rightarrow> registry" where
  "registerInitializationMarkup name value reg =
     (if \<not> truthy (get reg name) then AList.update name value reg else reg)"
  for name

text \<open>
  The order in which \<^verbatim>\<open>for (var key in obj)\<close> visits the own properties: the names
  that are array indices first, in ascending numeric order, then the other names in
  creation order. An array index is the decimal form of an integer from 0 to
  \<open>2\<^sup>3\<^sup>2 - 2\<close>. The members of \<^verbatim>\<open>Object.prototype\<close> are not enumerable and are not
  visited.
\<close>

definition digit_value :: "char \<Rightarrow> nat option" where
  "digit_value c = map_of (zip ''0123456789'' [0, 1, 2, 3, 4, 5, 6, 7, 8, 9]) c"

definition index_value :: "string \<Rightarrow> nat" where
  "index_value s = fold (\<lambda>c n. 10 * n + (case digit_value c of None \<Rightarrow> 0 | Some d \<Rightarrow> d)) s 0"

definition array_index :: "string \<Rightarrow> bool" where
  "array_index s =
     (s \<noteq> [] \<and> list_all (\<lambda>c. digit_value c \<noteq> None) s \<and>
      (s = ''0'' \<or> take 1 s \<noteq> ''0'') \<and> index_value s < 4294967295)"

definition for_in :: "registry \<Rightarrow> string list" where
  "for_in obj =
     sort_key index_value (filter array_index (map fst obj)) @
     filter (\<lambda>key. \<not> array_index key) (map fst obj)"

text \<open>
  A registered function is code of the caller: a call of it returns a value or
  throws, and may change the registry and the rest of the program's state. The
  functions of a program are modelled by the parameter \<open>invoke\<close>, which maps the
  reference of a function and the state before a call without arguments to the
  result and the state after it; the state is the registry together with the rest of
  the program's state, of any type \<open>'h\<close>.
\<close>

type_synonym 'h program =
  "nat \<Rightarrow> registry \<times> 'h \<Rightarrow> (error + jsval) \<times> (registry \<times> 'h)"

text \<open>The loop of \<^verbatim>\<open>generateInitializationMarkup\<close> over the keys still to visit, the
  keys being fixed when the loop starts: a property deleted before its turn is
  skipped, and one added during the loop is not visited.\<close>

fun generate_loop ::
  "'h program \<Rightarrow> string list \<Rightarrow> string \<Rightarrow> registry \<times> 'h \<Rightarrow> (error + string) \<times> (registry \<times> 'h)"
  where
  "generate_loop invoke [] rv s = (Inr rv, s)"
| "generate_loop invoke (key # keys) rv (markup_list, h) =
     (if key \<in> set (map fst markup_list) then
        let m = get markup_list key in
        (case m of
           JFunction r src \<Rightarrow>
             (case invoke r (markup_list, h) of
                (Inl e, s) \<Rightarrow> (Inl e, s)
              | (Inr m, s) \<Rightarrow> generate_loop invoke keys (rv @ ([CHR 0x0A] @ to_str m)) s)
         | _ \<Rightarrow>
             generate_loop invoke keys (rv @ ([CHR 0x0A] @ to_str (JStr (to_str m))))
               (markup_list, h))
      else generate_loop invoke keys rv (markup_list, h))"

text \<open>\<^verbatim>\<open>generateInitializationMarkup()\<close>: the string returned, or the error thrown by a
  registered function, and the state the call leaves.\<close>

fun generateInitializationMarkup ::
  "'h program \<Rightarrow> registry \<times> 'h \<Rightarrow> (error + string) \<times> (registry \<times> 'h)" where
  "generateInitializationMarkup invoke (reg, h) = generate_loop invoke (for_in reg) [] (reg, h)"

section \<open>The renderers\<close>

text \<open>
  A renderer object holds the counter \<open>depth\<close>; the table renderer also holds its
  method \<^verbatim>\<open>initializationMarkupForEmbed\<close>, a function value. The counter is modelled
  as an integer. A method that assigns to \<^verbatim>\<open>this\<close> returns the object it leaves, and
  a method that registers markup takes the registry and returns the one it leaves. A
  path is an array of strings.
\<close>

record renderer =
  depth :: int

record table = renderer +
  initializationMarkupForEmbed :: jsval

text \<open>\<^verbatim>\<open>xs.slice(start)\<close>: a negative start counts from the end.\<close>

definition slice :: "'a list \<Rightarrow> int \<Rightarrow> 'a list" where
  "slice xs start =
     (if start < 0 then drop (nat (int (length xs) + start)) xs else drop (nat start) xs)"

text \<open>Modelled from the spec: \<^verbatim>\<open>_.each\<close> (module \<^verbatim>\<open>./underscore\<close>) visits the elements of
  a sequence in order: the elements of an array, the characters of a string, the
  property values of an object, and nothing otherwise.\<close>

fun each :: "jsval \<Rightarrow> jsval list" where
  "each (JArray r xs) = xs"
| "each (JStr s) = map (\<lambda>c. JStr [c]) s"
| "each (JObject r ps) = map snd ps"
| "each _ = []"

subsection \<open>The table renderer\<close>

definition table_start :: "table \<Rightarrow> string \<times> table" where
  \<open>table_start this = (''<table class="render-table">'', this\<lparr>depth := 0\<rparr>)\<close>

text \<open>\<^verbatim>\<open>_.last(path)\<close> (module \<^verbatim>\<open>./underscore\<close>) is the last segment of the path; an empty
  path has none, and \<^verbatim>\<open>name.substr\<close> throws a \<^verbatim>\<open>TypeError\<close>, after the counter was
  incremented.\<close>

definition table_beginGroup :: "table \<Rightarrow> string list \<Rightarrow> (error + string) \<times> table" where
  \<open>table_beginGroup this path =
     (let this = this\<lparr>depth := depth this + 1\<rparr>;
          css_class = ''level-'' @ string_of_int (depth this)
      in (case path of
            [] \<Rightarrow> Inl TypeError
          | _ \<Rightarrow>
              let name = last path in
              Inr (''<tbody class="head '' @ css_class @ ''">'' @
                   ''<tr>'' @
                     ''<th colspan="3">'' @
                     capitalized name @
                     ''</th>'' @
                   ''</tr>'' @
                   ''</tbody>'' @
                   ''<tbody class="group '' @ css_class @ ''">''),
          this))\<close>

definition table_endGroup :: "table \<Rightarrow> string list \<Rightarrow> string \<times> table" where
  \<open>table_endGroup this path = (''</tbody>'', this\<lparr>depth := depth this - 1\<rparr>)\<close>

definition table_field ::
  "toHTML \<Rightarrow> table \<Rightarrow> field \<Rightarrow> string list \<Rightarrow> jsval \<Rightarrow> jsval \<Rightarrow> err list option \<Rightarrow> string" where
  \<open>table_field toHTML this field path value raw errors =
     (let name = join ''.'' path;
          caption = join '' '' (slice path (depth this))
      in if strict_eq (widget.type (widget field)) (JStr ''hidden'')
         then toHTML (widget field) name value raw field
         else
           ''<tr class="'' @ join '' '' (classes field errors) @ ''">'' @
             ''<th>'' @
               labelHTML field caption JUndefined @
               descriptionHTML field @
             ''</th>'' @
             ''<td>'' @
               toHTML (widget field) name value raw field @
               hintHTML field @
             ''</td>'' @
             ''<td class="errors">'' @
               errorHTML errors @
             ''</td>'' @
           ''</tr>'')\<close>

definition table_embed ::
  "toHTML \<Rightarrow> table \<Rightarrow> registry \<Rightarrow> field \<Rightarrow> string list \<Rightarrow> jsval \<Rightarrow> jsval \<Rightarrow> err list option
     \<Rightarrow> string \<times> registry" where
  \<open>table_embed toHTML this reg field path value raw errors =
     (let name = join ''.'' path;
          caption = join '' '' (slice path (depth this));
          reg = registerInitializationMarkup
                  ''built-in embed/embedList'' (initializationMarkupForEmbed this) reg
      in (''<tr class="embedded">'' @
            ''<th>'' @
              labelHTML (field.type field) caption JUndefined @
              descriptionHTML (field.type field) @
            ''</th>'' @
            ''<td class="field" rel="'' @ to_str (descr.name (field.type field)) @ ''">'' @
            ''<table rel="'' @ name @ ''"><tbody><tr><td>'' @
              toHTML (widget field) name value raw field @
            ''</td>'' @
            ''<td class="actions"></td>'' @
            ''</tr></tbody></table>'' @
            ''<td class="errors">'' @
              errorHTML errors @
            ''</td>'' @
          ''</tr>'',
          reg))\<close>

definition table_embedList ::
  "toHTML \<Rightarrow> table \<Rightarrow> registry \<Rightarrow> field \<Rightarrow> string list \<Rightarrow> jsval \<Rightarrow> jsval \<Rightarrow> err list option
     \<Rightarrow> string \<times> registry" where
  \<open>table_embedList toHTML this reg field path value raw errors =
     (let name = join ''.'' path;
          caption = join '' '' (slice path (depth this));
          reg = registerInitializationMarkup
                  ''built-in embed/embedList'' (initializationMarkupForEmbed this) reg;
          html = ''<tr class="embeddedlist">'' @
            ''<th>'' @
              labelHTML (field.type field) caption JUndefined @
              descriptionHTML (field.type field) @
            ''</th>'' @
            ''<td class="field" rel="'' @ to_str (descr.name (field.type field)) @ ''">'' @
            ''<table rel="'' @ name @ ''"><tbody>'';
          html = fold (\<lambda>v html.
                   html @ (
                     ''<tr><td>'' @
                       toHTML (widget field) name v raw field @
                     ''</td><td class="actions">'' @
                     ''</td></tr>''))
                   (each value) html;
          html = html @ (''</tbody></table></td>'' @
            ''<td class="errors">'' @
              errorHTML errors @
            ''</td>'' @
          ''</tr>'')
      in (html, reg))\<close>

definition table_end :: "table \<Rightarrow> string" where
  \<open>table_end this = ''</table>''\<close>

subsection \<open>The div renderer\<close>

definition div_start :: "renderer \<Rightarrow> string \<times> renderer" where
  \<open>div_start this = (''<div class="render-div">'', this\<lparr>depth := 0\<rparr>)\<close>

definition div_beginGroup :: "renderer \<Rightarrow> string list \<Rightarrow> (error + string) \<times> renderer" where
  \<open>div_beginGroup this path =
     (let this = this\<lparr>depth := depth this + 1\<rparr>;
          css_class = ''level-'' @ string_of_int (depth this)
      in (case path of
            [] \<Rightarrow> Inl TypeError
          | _ \<Rightarrow>
              let name = last path in
              Inr (''<div class="group '' @ css_class @ ''">'' @
                   ''<div class="heading">'' @
                     capitalized name @
                   ''</div>''),
          this))\<close>

definition div_endGroup :: "renderer \<Rightarrow> string list \<Rightarrow> string \<times> renderer" where
  \<open>div_endGroup this path = (''</div>'', this\<lparr>depth := depth this - 1\<rparr>)\<close>

definition div_field ::
  "toHTML \<Rightarrow> renderer \<Rightarrow> field \<Rightarrow> string list \<Rightarrow> jsval \<Rightarrow> jsval \<Rightarrow> err list option \<Rightarrow> string" where
  \<open>div_field toHTML this field path value raw errors =
     (let name = join ''.'' path;
          caption = join '' '' (slice path (depth this))
      in if strict_eq (widget.type (widget field)) (JStr ''hidden'')
         then toHTML (widget field) name value raw field
         else
           ''<div class="'' @
             join '' '' (classes field errors) @ ''">'' @
           ''<div class="scalar">'' @
             ''<div class="label">'' @
               ''<label for="'' @ name @ ''">'' @
                 labelHTML field caption JUndefined @
                 descriptionHTML field @
               ''</label>'' @
             ''</div>'' @
             ''<div class="content">'' @
               ''<div class="inner">'' @
                 toHTML (widget field) name value raw field @
               ''</div>'' @
               ''<div class="hint">'' @
                 hintHTML field @
               ''</div>'' @
               ''<div class="errors">'' @
                 errorHTML errors @
               ''</div>'' @
             ''</div>'' @
           ''</div>'' @
           ''</div>'')\<close>

definition div_embed ::
  "toHTML \<Rightarrow> renderer \<Rightarrow> field \<Rightarrow> string list \<Rightarrow> jsval \<Rightarrow> jsval \<Rightarrow> err list option \<Rightarrow> string" where
  \<open>div_embed toHTML this field path value raw errors =
     (let name = join ''.'' path;
          caption = join '' '' (slice path (depth this))
      in ''<div class="'' @
           join '' '' (classes (field.type field) errors) @ ''">'' @
         ''<div class="embedded">'' @
           ''<div class="label">'' @
             ''<label for="'' @ name @ ''">'' @
               labelHTML (field.type field) caption JUndefined @
               descriptionHTML (field.type field) @
             ''</label>'' @
           ''</div>'' @
           ''<div class="content" rel="'' @ to_str (descr.name (field.type field)) @ ''">'' @
             ''<div class="inner" rel="'' @ name @ ''">'' @
               toHTML (widget field) name value raw field @
             ''</div>'' @
             ''<div class="actions">'' @
             ''</div>'' @
             ''<div class="errors">'' @
               errorHTML errors @
             ''</div>'' @
           ''</div>'' @
         ''</div>'')\<close>

definition div_embedList ::
  "toHTML \<Rightarrow> renderer \<Rightarrow> field \<Rightarrow> string list \<Rightarrow> jsval \<Rightarrow> jsval \<Rightarrow> err list option \<Rightarrow> string" where
  \<open>div_embedList toHTML this field path value raw errors =
     (let name = join ''.'' path;
          caption = join '' '' (slice path (depth this));
          html = (
            ''<div class="'' @
              join '' '' (classes (field.type field) errors) @ ''">'' @
            ''<div class="embeddedlist">'' @
              ''<div class="label">'' @
                ''<label for="'' @ name @ ''">'' @
                  labelHTML (field.type field) caption JUndefined @
                  descriptionHTML (field.type field) @
                ''</label>'' @
              ''</div>'' @
              ''<div class="content" rel="'' @ to_str (descr.name (field.type field)) @ ''">'');
          html = fold (\<lambda>v html.
                   html @ (
                     ''<div class="item" rel="'' @ name @ ''">'' @
                       ''<div class="inner">'' @
                         toHTML (widget field) name value raw field @
                       ''</div>'' @
                       ''<div class="actions">'' @
                       ''</div>'' @
                     ''</div>''))
                   (each value) html;
          html = html @ (
              ''<div class="errors">'' @
                errorHTML errors @
              ''</div>'' @
              ''</div>'' @
            ''</div>'' @
            ''</div>'')
      in html)\<close>

definition div_end :: "renderer \<Rightarrow> string" where
  \<open>div_end this = ''</div>''\<close>

subsection \<open>Render passes\<close>

text \<open>
  The form layer that drives a renderer is outside this module. Between \<^verbatim>\<open>start\<close> and
  \<^verbatim>\<open>end\<close> it makes a sequence of the five visiting calls below. The state of a pass is
  the renderer object and the registry; \<open>table_call\<close> and \<open>div_call\<close> give what a call
  returns or throws and the state it leaves, \<open>table_calls\<close> and \<open>div_calls\<close> the state
  after a sequence of calls.
\<close>

datatype call =
    BeginGroup "string list"
  | EndGroup "string list"
  | Field field "string list" jsval jsval "err list option"
  | Embed field "string list" jsval jsval "err list option"
  | EmbedList field "string list" jsval jsval "err list option"

fun table_call ::
  "toHTML \<Rightarrow> call \<Rightarrow> table \<times> registry \<Rightarrow> (error + string) \<times> (table \<times> registry)" where
  "table_call toHTML (BeginGroup path) (this, reg) =
     (let (out, this) = table_beginGroup this path in (out, (this, reg)))"
| "table_call toHTML (EndGroup path) (this, reg) =
     (let (out, this) = table_endGroup this path in (Inr out, (this, reg)))"
| "table_call toHTML (Field field path value raw errors) (this, reg) =
     (Inr (table_field toHTML this field path value raw errors), (this, reg))"
| "table_call toHTML (Embed field path value raw errors) (this, reg) =
     (let (out, reg) = table_embed toHTML this reg field path value raw errors
      in (Inr out, (this, reg)))"
| "table_call toHTML (EmbedList field path value raw errors) (this, reg) =
     (let (out, reg) = table_embedList toHTML this reg field path value raw errors
      in (Inr out, (this, reg)))"

fun div_call ::
  "toHTML \<Rightarrow> call \<Rightarrow> renderer \<times> registry \<Rightarrow> (error + string) \<times> (renderer \<times> registry)" where
  "div_call toHTML (BeginGroup path) (this, reg) =
     (let (out, this) = div_beginGroup this path in (out, (this, reg)))"
| "div_call toHTML (EndGroup path) (this, reg) =
     (let (out, this) = div_endGroup this path in (Inr out, (this, reg)))"
| "div_call toHTML (Field field path value raw errors) (this, reg) =
     (Inr (div_field toHTML this field path value raw errors), (this, reg))"
| "div_call toHTML (Embed field path value raw errors) (this, reg) =
     (Inr (div_embed toHTML this field path value raw errors), (this, reg))"
| "div_call toHTML (EmbedList field path value raw errors) (this, reg) =
     (Inr (div_embedList toHTML this field path value raw errors), (this, reg))"

fun table_calls :: "toHTML \<Rightarrow> call list \<Rightarrow> table \<times> registry \<Rightarrow> table \<times> registry" where
  "table_calls toHTML [] s = s"
| "table_calls toHTML (c # cs) s = table_calls toHTML cs (snd (table_call toHTML c s))"

fun div_calls :: "toHTML \<Rightarrow> call list \<Rightarrow> renderer \<times> registry \<Rightarrow> renderer \<times> registry" where
  "div_calls toHTML [] s = s"
| "div_calls toHTML (c # cs) s = div_calls toHTML cs (snd (div_call toHTML c s))"

text \<open>A sequence of calls is balanced from depth \<open>n\<close> when every \<^verbatim>\<open>endGroup\<close> closes an
  open \<^verbatim>\<open>beginGroup\<close> and no group is left open at the end.\<close>

fun balanced :: "nat \<Rightarrow> call list \<Rightarrow> bool" where
  "balanced n [] = (n = 0)"
| "balanced n (BeginGroup path # cs) = balanced (Suc n) cs"
| "balanced n (EndGroup path # cs) = (case n of 0 \<Rightarrow> False | Suc m \<Rightarrow> balanced m cs)"
| "balanced n (c # cs) = balanced n cs"

section \<open>Notions of the specification and example inputs\<close>

text \<open>The markup of a registry entry in the words of the specification: the entry
  invoked if it is callable, otherwise coerced to its string form. A function called
  in the state \<open>s\<close> is a pure generator there when the call returns a value and leaves
  the state as it was.\<close>

definition entry_markup :: "'h program \<Rightarrow> registry \<times> 'h \<Rightarrow> jsval \<Rightarrow> string" where
  "entry_markup invoke s m =
     (case m of
        JFunction r src \<Rightarrow> (case fst (invoke r s) of Inl e \<Rightarrow> [] | Inr v \<Rightarrow> to_str v)
      | _ \<Rightarrow> to_str m)"

definition pure_at :: "'h program \<Rightarrow> registry \<times> 'h \<Rightarrow> jsval \<Rightarrow> bool" where
  "pure_at invoke s m =
     (case m of
        JFunction r src \<Rightarrow> (case invoke r s of (Inl e, s') \<Rightarrow> False | (Inr v, s') \<Rightarrow> s' = s)
      | _ \<Rightarrow> True)"

text \<open>Functions of a program: one where every function returns the same script tag
  and changes nothing; one where every function counts its calls in the state and
  returns the count; one where every function throws.\<close>

definition script_functions :: "nat program" where
  "script_functions r s = (Inr (JStr ''<script></script>''), s)"

definition counting_functions :: "nat program" where
  "counting_functions r s = (Inr (JNum (int (snd s) + 1)), (fst s, Suc (snd s)))"

definition throwing_functions :: "nat program" where
  "throwing_functions r s = (Inl (Error ''no markup''), s)"

text \<open>A widget method that prints an input element with the name and the value it is
  given, a field type, a field with an embedded list, and a hidden field.\<close>

definition input_toHTML :: toHTML where
  \<open>input_toHTML w name value raw field =
     ''<input name="'' @ name @ ''" value="'' @ to_str value @ ''">''\<close>
  for name

definition tag_type :: descr where
  "tag_type = \<lparr>label = JUndefined, description = JUndefined, hint = JUndefined,
                required = JUndefined, name = JStr ''tag''\<rparr>"

definition tags_field :: field where
  "tags_field = \<lparr>label = JUndefined, description = JUndefined, hint = JUndefined,
                  required = JUndefined, name = JUndefined,
                  widget = \<lparr>widget.type = JStr ''embedList''\<rparr>, type = tag_type\<rparr>"

definition hidden_field :: field where
  "hidden_field = \<lparr>label = JStr ''Id'', description = JStr ''The key'', hint = JUndefined,
                    required = JBool True, name = JUndefined,
                    widget = \<lparr>widget.type = JStr ''hidden''\<rparr>, type = tag_type\<rparr>"

text \<open>The entries of the registry under a name.\<close>

definition entries_named :: "string \<Rightarrow> registry \<Rightarrow> (string \<times> jsval) list" where
  "entries_named key reg = filter (\<lambda>entry. fst entry = key) reg"

text \<open>The calls that visit an embed or an embedList field.\<close>

fun is_embed :: "call \<Rightarrow> bool" where
  "is_embed (Embed field path value raw errors) = True"
| "is_embed (EmbedList field path value raw errors) = True"
| "is_embed _ = False"

text \<open>A function value for \<^verbatim>\<open>initializationMarkupForEmbed\<close>; a pass that visits an embed and an embedList field; a pass with nested groups.\<close>

definition bind_embed :: jsval where
  "bind_embed = JFunction 20 ''function () { ... }''"

definition embed_pass :: "call list" where
  "embed_pass =
     [Embed tags_field [''tag''] (JStr ''a'') JNull None,
      EmbedList tags_field [''tags''] (JArray 1 [JStr ''a'', JStr ''b'']) JNull None]"

definition example_pass :: "call list" where
  "example_pass =
     [BeginGroup [''root'', ''address''],
      Field hidden_field [''root'', ''address'', ''id''] (JNum 42) JNull None,
      BeginGroup [''root'', ''address'', ''geo''],
      EndGroup [''root'', ''address'', ''geo''],
      EmbedList tags_field [''root'', ''address'', ''tags'']
        (JArray 1 [JStr ''a'', JStr ''b'']) JNull None,
      EndGroup [''root'', ''address'']]"

section \<open>Properties of the validation rules\<close>

lemma not_empty_like:
  "(strict_neq v JNull \<and> strict_neq v JUndefined \<and> strict_neq v (JStr [])) = (\<not> empty_like v)"
  by (cases v) (simp_all add: strict_neq_def empty_like_def)

text \<open>
  Claim C4. The validator of \<^verbatim>\<open>matchUsername()\<close> returns normally when
  \<^verbatim>\<open>userCtx.name === newVal\<close>, and when the name and the new value are both empty-like
  (each \<^verbatim>\<open>null\<close>, \<^verbatim>\<open>undefined\<close> or the empty string); in every other case it throws
  an error with the message "Field does not match your username".
\<close>

theorem matchUsername_raises_iff:
  "matchUsername newDoc oldDoc newVal oldVal userCtx =
     (if strict_eq (userCtx.name userCtx) newVal \<or>
         (empty_like (userCtx.name userCtx) \<and> empty_like newVal)
      then Inr ()
      else Inl (Error ''Field does not match your username''))"
  by (auto simp add: matchUsername_def Let_def not_empty_like) (simp_all add: strict_neq_def)

theorem matchUsername_witness:
  "matchUsername JNull JNull (JStr ''bob'') JNull \<lparr>userCtx.name = JStr ''bob''\<rparr> = Inr () \<and>
   matchUsername JNull JNull (JStr []) JNull \<lparr>userCtx.name = JUndefined\<rparr> = Inr () \<and>
   matchUsername JNull JNull (JStr ''eve'') JNull \<lparr>userCtx.name = JStr ''bob''\<rparr> =
     Inl (Error ''Field does not match your username'') \<and>
   matchUsername JNull JNull JNaN JNull \<lparr>userCtx.name = JNaN\<rparr> =
     Inl (Error ''Field does not match your username'')"
  by (simp add: matchUsername_raises_iff empty_like_def)

text \<open>
  Claim C5. The validator of \<^verbatim>\<open>uneditable()\<close> throws, with the message "Field cannot be
  edited once created", exactly when \<^verbatim>\<open>oldDoc\<close> is truthy and
  \<^verbatim>\<open>newValue !== oldValue\<close>; with a falsy \<^verbatim>\<open>oldDoc\<close> it never throws.
\<close>

theorem uneditable_raises_iff:
  "uneditable newDoc oldDoc newValue oldValue userCtx =
     (if truthy oldDoc \<and> strict_neq newValue oldValue
      then Inl (Error ''Field cannot be edited once created'')
      else Inr ())"
  by (simp add: uneditable_def)

theorem uneditable_witness:
  "uneditable (JObject 1 []) JNull (JNum 1) (JNum 2) \<lparr>userCtx.name = JNull\<rparr> = Inr () \<and>
   uneditable (JObject 1 []) (JObject 2 []) (JNum 1) (JNum 2) \<lparr>userCtx.name = JNull\<rparr> =
     Inl (Error ''Field cannot be edited once created'') \<and>
   uneditable (JObject 1 []) (JObject 2 []) (JNum 2) (JNum 2) \<lparr>userCtx.name = JNull\<rparr> = Inr ()"
  by (simp add: uneditable_raises_iff strict_neq_def)

text \<open>
  Claim C6. \<^verbatim>\<open>usernameMatchesField(path)\<close> takes an array of segments or a single
  segment. Its validator looks the path up in \<^verbatim>\<open>newDoc\<close> and throws an error with the
  message "username does not match field: " followed by the segments joined with dots
  exactly when \<^verbatim>\<open>userCtx.name\<close> is not strictly equal to the value found. For
  segments that are strings the joined path is the strings with dots between them.
\<close>

theorem usernameMatchesField_raises_iff:
  "usernameMatchesField lookup (JArray r segs) newDoc oldDoc newValue oldValue userCtx =
     (if strict_eq (userCtx.name userCtx) (lookup newDoc segs) then Inr ()
      else Inl (Error (''username does not match field: '' @ join_values ''.'' segs))) \<and>
   (\<not> isArray seg \<longrightarrow>
    usernameMatchesField lookup seg newDoc oldDoc newValue oldValue userCtx =
     (if strict_eq (userCtx.name userCtx) (lookup newDoc [seg]) then Inr ()
      else Inl (Error (''username does not match field: '' @ join_values ''.'' [seg])))) \<and>
   join_values ''.'' (map JStr names) = join ''.'' names"
proof -
  have a: "\<not> isArray seg \<Longrightarrow> segments seg = [seg]"
    by (cases seg) simp_all
  have b: "join_values sep (map JStr names) = join sep names" for sep
    by (induction sep names rule: join.induct) (simp_all add: join_values_def)
  show ?thesis
    by (simp add: usernameMatchesField_def strict_neq_def a b)
qed

theorem usernameMatchesField_witness:
  "usernameMatchesField getPropertyPath (JArray 1 [JStr ''a'', JStr ''b''])
     (JObject 2 [(''a'', JObject 3 [(''b'', JStr ''bob'')])]) JNull JNull JNull
     \<lparr>userCtx.name = JStr ''bob''\<rparr> = Inr () \<and>
   usernameMatchesField getPropertyPath (JArray 1 [JStr ''a'', JStr ''b''])
     (JObject 2 [(''a'', JObject 3 [(''b'', JStr ''bob'')])]) JNull JNull JNull
     \<lparr>userCtx.name = JStr ''eve''\<rparr> =
       Inl (Error ''username does not match field: a.b'') \<and>
   usernameMatchesField getPropertyPath (JStr ''owner'')
     (JObject 2 [(''owner'', JStr ''bob'')]) JNull JNull JNull
     \<lparr>userCtx.name = JStr ''eve''\<rparr> =
       Inl (Error ''username does not match field: owner'')"
  using usernameMatchesField_raises_iff [of getPropertyPath 1 "[JStr ''a'', JStr ''b'']"
          "JObject 2 [(''a'', JObject 3 [(''b'', JStr ''bob'')])]" JNull JNull JNull
          "\<lparr>userCtx.name = JStr ''bob''\<rparr>" "JStr ''owner''"]
        usernameMatchesField_raises_iff [of getPropertyPath 1 "[JStr ''a'', JStr ''b'']"
          "JObject 2 [(''a'', JObject 3 [(''b'', JStr ''bob'')])]" JNull JNull JNull
          "\<lparr>userCtx.name = JStr ''eve''\<rparr>" "JStr ''owner''"]
        usernameMatchesField_raises_iff [of getPropertyPath 1 "[]"
          "JObject 2 [(''owner'', JStr ''bob'')]" JNull JNull JNull
          "\<lparr>userCtx.name = JStr ''eve''\<rparr>" "JStr ''owner''"]
  by (simp add: join_values_def)

section \<open>Properties of the markup utilities\<close>

text \<open>
  Claim C10. Without an \<^verbatim>\<open>id\<close> argument, or with a falsy one, \<^verbatim>\<open>labelHTML(field, name)\<close>
  uses \<^verbatim>\<open>id_\<close> followed by the name as the \<^verbatim>\<open>for\<close> attribute of the label and
  \<^verbatim>\<open>labelText(field, name)\<close> as its text; a truthy \<^verbatim>\<open>id\<close> is used instead, a
  non-empty string verbatim.
\<close>

theorem labelHTML_for_attribute:
  \<open>labelHTML field name JUndefined =
     ''<label for="id_'' @ name @ ''">'' @ to_str (labelText field name) @ ''</label>'' \<and>
   (\<not> truthy id \<longrightarrow>
      labelHTML field name id =
        ''<label for="id_'' @ name @ ''">'' @ to_str (labelText field name) @ ''</label>'') \<and>
   (truthy id \<longrightarrow>
      labelHTML field name id =
        ''<label for="'' @ to_str id @ ''">'' @ to_str (labelText field name) @ ''</label>'') \<and>
   (s \<noteq> [] \<longrightarrow>
      labelHTML field name (JStr s) =
        ''<label for="'' @ s @ ''">'' @ to_str (labelText field name) @ ''</label>'')\<close>
  for name id
  by (simp add: labelHTML_def or_js_def)

theorem labelHTML_witness:
  \<open>labelHTML \<lparr>label = JUndefined, description = JUndefined, hint = JUndefined,
              required = JUndefined, name = JUndefined\<rparr> ''first_name'' JUndefined =
     ''<label for="id_first_name">First name</label>'' \<and>
   labelHTML \<lparr>label = JUndefined, description = JUndefined, hint = JUndefined,
              required = JUndefined, name = JUndefined\<rparr> ''first_name'' (JStr []) =
     ''<label for="id_first_name">First name</label>'' \<and>
   labelHTML \<lparr>label = JStr ''Custom'', description = JUndefined, hint = JUndefined,
              required = JUndefined, name = JUndefined\<rparr> ''first_name'' (JStr ''fn'') =
     ''<label for="fn">Custom</label>''\<close>
  using labelHTML_for_attribute [of
          "\<lparr>label = JUndefined, description = JUndefined, hint = JUndefined,
              required = JUndefined, name = JUndefined\<rparr>" "''first_name''" "JStr []" "''fn''"]
        labelHTML_for_attribute [of
          "\<lparr>label = JStr ''Custom'', description = JUndefined, hint = JUndefined,
              required = JUndefined, name = JUndefined\<rparr>" "''first_name''" "JStr ''fn''" "''fn''"]
  by (simp add: labelText_def capitalized_def toUpperCase_def replace_underscores_def)

section \<open>Properties of the registry\<close>

lemma get_update_same: "get (AList.update k v reg) k = v"
  by (simp add: get_def update_conv')

lemma get_own: "map_of reg key = Some m \<Longrightarrow> get reg key = m"
  by (simp add: get_def)

lemma distinct_registerInitializationMarkup:
  "distinct (map fst reg) \<Longrightarrow> distinct (map fst (registerInitializationMarkup k v reg))"
  by (simp add: registerInitializationMarkup_def distinct_update)

lemma set_for_in: "set (for_in reg) = set (map fst reg)"
  by (auto simp add: for_in_def)

lemma for_in_creation_order:
  "\<forall>key\<in>set (map fst reg). \<not> array_index key \<Longrightarrow> for_in reg = map fst reg"
  by (simp add: for_in_def filter_empty_conv filter_id_conv)

lemma pure_own_entry:
  assumes "\<forall>entry\<in>set reg. pure_at invoke (reg, h) (snd entry)"
    and "key \<in> set (map fst reg)"
  shows "pure_at invoke (reg, h) (get reg key)"
proof -
  from assms(2) obtain m where m: "map_of reg key = Some m"
    by (cases "map_of reg key") (auto simp add: map_of_eq_None_iff)
  then have "(key, m) \<in> set reg" by (rule map_of_SomeD)
  with assms(1) have "pure_at invoke (reg, h) m" by force
  with m show ?thesis by (simp add: get_own)
qed

lemma generate_loop_pure:
  assumes "\<forall>entry\<in>set reg. pure_at invoke (reg, h) (snd entry)"
    and "set keys \<subseteq> set (map fst reg)"
  shows "generate_loop invoke keys rv (reg, h) =
           (Inr (rv @ concat (map (\<lambda>key. CHR 0x0A # entry_markup invoke (reg, h) (get reg key)) keys)),
            (reg, h))"
  using assms(2)
proof (induction keys arbitrary: rv)
  case Nil
  show ?case by simp
next
  case (Cons key keys)
  then have own: "key \<in> set (map fst reg)" and rest: "set keys \<subseteq> set (map fst reg)"
    by simp_all
  have p: "pure_at invoke (reg, h) (get reg key)"
    using pure_own_entry [OF assms(1) own] .
  show ?case
  proof (cases "get reg key")
    case (JFunction r src)
    with p obtain v where "invoke r (reg, h) = (Inr v, (reg, h))"
      by (auto simp add: pure_at_def split: prod.splits sum.splits)
    with JFunction own show ?thesis
      by (simp add: Cons.IH [OF rest] entry_markup_def)
  qed (use own in \<open>simp_all add: Cons.IH [OF rest] entry_markup_def\<close>)
qed

lemma generate_pure:
  assumes "\<forall>entry\<in>set reg. pure_at invoke (reg, h) (snd entry)"
  shows "generateInitializationMarkup invoke (reg, h) =
           (Inr (concat (map (\<lambda>key. CHR 0x0A # entry_markup invoke (reg, h) (get reg key))
                   (for_in reg))),
            (reg, h))"
  using generate_loop_pure [OF assms, of "for_in reg" "[]"]
  by (simp add: set_for_in)

lemma entries_by_key:
  assumes "distinct (map fst reg)"
  shows "map (\<lambda>key. f (get reg key)) (map fst reg) = map (\<lambda>(key, m). f m) reg"
proof -
  have "get reg (fst p) = snd p" if "p \<in> set reg" for p
    using that assms by (simp add: get_own)
  then show ?thesis
    by (simp add: case_prod_beta)
qed

text \<open>
  Claim C8, as amended. Let the registry hold no name that is an array index, and let
  every registered function be a pure generator in the current state: called there, it
  returns a value and leaves the registry and the rest of the state as they were. Then
  \<^verbatim>\<open>generateInitializationMarkup()\<close> leaves the registry (and the state) as it was, and
  returns the markup of every entry in registration order, each after a newline, where
  the markup of an entry is what it returns if it is a function and its string form
  otherwise; a second call right after the first returns the same string and leaves the
  same state. The property names of an object are distinct.
\<close>

theorem generateInitializationMarkup_pure_repeatable:
  assumes "distinct (map fst reg)"
    and "\<forall>key\<in>set (map fst reg). \<not> array_index key"
    and "\<forall>entry\<in>set reg. pure_at invoke (reg, h) (snd entry)"
  shows "generateInitializationMarkup invoke (reg, h) =
           (Inr (concat (map (\<lambda>(key, m). CHR 0x0A # entry_markup invoke (reg, h) m) reg)),
            (reg, h)) \<and>
         generateInitializationMarkup invoke (snd (generateInitializationMarkup invoke (reg, h))) =
           generateInitializationMarkup invoke (reg, h)"
proof -
  have "generateInitializationMarkup invoke (reg, h) =
          (Inr (concat (map (\<lambda>key. CHR 0x0A # entry_markup invoke (reg, h) (get reg key))
                  (map fst reg))),
           (reg, h))"
    using generate_pure [OF assms(3)] for_in_creation_order [OF assms(2)] by simp
  also have "map (\<lambda>key. CHR 0x0A # entry_markup invoke (reg, h) (get reg key)) (map fst reg) =
      map (\<lambda>(key, m). CHR 0x0A # entry_markup invoke (reg, h) m) reg"
    by (rule entries_by_key [OF assms(1), of "\<lambda>m. CHR 0x0A # entry_markup invoke (reg, h) m"])
  finally show ?thesis by simp
qed

theorem generateInitializationMarkup_witness:
  "distinct (map fst [(''a'', JFunction 21 ''function () { ... }''), (''b'', JStr ''<b>'')]) \<and>
   \<not> array_index ''a'' \<and> \<not> array_index ''b'' \<and>
   pure_at script_functions
     ([(''a'', JFunction 21 ''function () { ... }''), (''b'', JStr ''<b>'')], 0)
     (JFunction 21 ''function () { ... }'') \<and>
   generateInitializationMarkup script_functions
     ([(''a'', JFunction 21 ''function () { ... }''), (''b'', JStr ''<b>'')], 0) =
     (Inr (CHR 0x0A # ''<script></script>'' @ CHR 0x0A # ''<b>''),
      ([(''a'', JFunction 21 ''function () { ... }''), (''b'', JStr ''<b>'')], 0)) \<and>
   generateInitializationMarkup script_functions
     (snd (generateInitializationMarkup script_functions
        ([(''a'', JFunction 21 ''function () { ... }''), (''b'', JStr ''<b>'')], 0))) =
     (Inr (CHR 0x0A # ''<script></script>'' @ CHR 0x0A # ''<b>''),
      ([(''a'', JFunction 21 ''function () { ... }''), (''b'', JStr ''<b>'')], 0))"
proof -
  let ?reg = "[(''a'', JFunction 21 ''function () { ... }''), (''b'', JStr ''<b>'')]"
  have d: "distinct (map fst ?reg)"
    by simp
  have i: "\<not> array_index ''a''" "\<not> array_index ''b''"
    by (simp_all add: array_index_def digit_value_def)
  then have n: "\<forall>key\<in>set (map fst ?reg). \<not> array_index key"
    by simp
  have f: "pure_at script_functions (?reg, 0) (JFunction 21 ''function () { ... }'')"
    by (simp add: pure_at_def script_functions_def)
  then have p: "\<forall>entry\<in>set ?reg. pure_at script_functions (?reg, 0) (snd entry)"
    by (simp add: pure_at_def)
  show ?thesis
    using generateInitializationMarkup_pure_repeatable [OF d n p] d i f
    by (simp add: entry_markup_def script_functions_def)
qed

text \<open>
  Claim C8 as stated fails in two ways. A registered function that counts its calls
  makes two consecutive calls of \<^verbatim>\<open>generateInitializationMarkup()\<close> return different
  strings. And a name that is an array index is visited before the names registered
  earlier: \<^verbatim>\<open>1\<close>, registered after \<^verbatim>\<open>b\<close>, is printed first.
\<close>

theorem generateInitializationMarkup_counterexample:
  "fst (generateInitializationMarkup counting_functions
          ([(''k'', JFunction 21 ''function () { ... }'')], 0)) = Inr (CHR 0x0A # ''1'') \<and>
   fst (generateInitializationMarkup counting_functions
          (snd (generateInitializationMarkup counting_functions
                  ([(''k'', JFunction 21 ''function () { ... }'')], 0)))) = Inr (CHR 0x0A # ''2'') \<and>
   registerInitializationMarkup ''1'' (JStr ''one'')
     (registerInitializationMarkup ''b'' (JStr ''bee'') []) =
     [(''b'', JStr ''bee''), (''1'', JStr ''one'')] \<and>
   fst (generateInitializationMarkup script_functions
          (registerInitializationMarkup ''1'' (JStr ''one'')
             (registerInitializationMarkup ''b'' (JStr ''bee'') []), 0)) =
     Inr (CHR 0x0A # ''one'' @ CHR 0x0A # ''bee'')"
proof -
  have one: "string_of_int 1 = ''1''" and two: "string_of_int 2 = ''2''"
    by (simp_all add: string_of_int_def string_of_nat.simps digit_def)
  have k: "for_in [(''k'', JFunction 21 ''function () { ... }'')] = [''k'']"
    by (simp add: for_in_def array_index_def digit_value_def)
  have r: "registerInitializationMarkup ''1'' (JStr ''one'')
     (registerInitializationMarkup ''b'' (JStr ''bee'') []) =
     [(''b'', JStr ''bee''), (''1'', JStr ''one'')]"
    by (simp add: registerInitializationMarkup_def get_def Object_prototype_def)
  have o: "for_in [(''b'', JStr ''bee''), (''1'', JStr ''one'')] = [''1'', ''b'']"
    by (simp add: for_in_def array_index_def digit_value_def index_value_def)
  show ?thesis
    unfolding r
    by (simp add: k o get_def counting_functions_def one two)
qed

text \<open>
  Claim C1, as amended. For every name, every truthy value \<open>v1\<close> and every value \<open>v2\<close>,
  \<^verbatim>\<open>registerInitializationMarkup(name, v2)\<close> after
  \<^verbatim>\<open>registerInitializationMarkup(name, v1)\<close> is silently ignored: it leaves the registry
  as the first call left it. When reading the name from the registry object gave no
  truthy value before (neither an entry of its own nor a member inherited from
  \<^verbatim>\<open>Object.prototype\<close>), the entry stored under the name is \<open>v1\<close>; and when moreover the
  registered functions are pure generators, the output of a subsequent
  \<^verbatim>\<open>generateInitializationMarkup()\<close> holds a newline followed by the markup of \<open>v1\<close>.
\<close>

theorem registerInitializationMarkup_first_write_wins:
  fixes name :: string
  assumes "truthy v1"
  shows "registerInitializationMarkup name v2 (registerInitializationMarkup name v1 reg) =
           registerInitializationMarkup name v1 reg \<and>
         (\<not> truthy (get reg name) \<longrightarrow>
            get (registerInitializationMarkup name v2 (registerInitializationMarkup name v1 reg))
              name = v1 \<and>
            ((\<forall>entry\<in>set (registerInitializationMarkup name v2
                              (registerInitializationMarkup name v1 reg)).
                pure_at invoke
                  (registerInitializationMarkup name v2
                     (registerInitializationMarkup name v1 reg), h) (snd entry)) \<longrightarrow>
             (\<exists>before after.
                generateInitializationMarkup invoke
                  (registerInitializationMarkup name v2
                     (registerInitializationMarkup name v1 reg), h) =
                  (Inr (before @
                        CHR 0x0A # entry_markup invoke
                          (registerInitializationMarkup name v2
                             (registerInitializationMarkup name v1 reg), h) v1 @
                        after),
                   (registerInitializationMarkup name v2
                      (registerInitializationMarkup name v1 reg), h)))))"
proof -
  let ?r1 = "registerInitializationMarkup name v1 reg"
  have t: "truthy (get ?r1 name)"
    using assms by (simp add: registerInitializationMarkup_def get_update_same)
  then have e: "registerInitializationMarkup name v2 ?r1 = ?r1"
    by (simp add: registerInitializationMarkup_def [of name v2])
  have stored: "get ?r1 name = v1" and own: "name \<in> set (for_in ?r1)"
    if "\<not> truthy (get reg name)"
    using that by (simp_all add: registerInitializationMarkup_def get_update_same set_for_in dom_update)
  have out: "\<exists>before after.
      generateInitializationMarkup invoke (?r1, h) =
        (Inr (before @ CHR 0x0A # entry_markup invoke (?r1, h) v1 @ after), (?r1, h))"
    if fresh: "\<not> truthy (get reg name)"
      and pure: "\<forall>entry\<in>set ?r1. pure_at invoke (?r1, h) (snd entry)"
  proof -
    from own [OF fresh] obtain ks1 ks2 where ks: "for_in ?r1 = ks1 @ name # ks2"
      by (auto dest: split_list)
    let ?f = "\<lambda>key. CHR 0x0A # entry_markup invoke (?r1, h) (get ?r1 key)"
    have "generateInitializationMarkup invoke (?r1, h) =
        (Inr (concat (map ?f ks1) @ CHR 0x0A # entry_markup invoke (?r1, h) v1 @
              concat (map ?f ks2)), (?r1, h))"
      using generate_pure [OF pure] by (simp add: ks stored [OF fresh])
    then show ?thesis by blast
  qed
  show ?thesis
    unfolding e using stored out by blast
qed

theorem registerInitializationMarkup_witness:
  "truthy (JStr ''A'') \<and> \<not> truthy (get [] ''k'') \<and>
   pure_at script_functions ([(''k'', JStr ''A'')], 0) (JStr ''A'') \<and>
   registerInitializationMarkup ''k'' (JStr ''B'') (registerInitializationMarkup ''k'' (JStr ''A'') []) =
     [(''k'', JStr ''A'')] \<and>
   get (registerInitializationMarkup ''k'' (JStr ''B'') (registerInitializationMarkup ''k'' (JStr ''A'') []))
     ''k'' = JStr ''A'' \<and>
   generateInitializationMarkup script_functions
     (registerInitializationMarkup ''k'' (JStr ''B'')
        (registerInitializationMarkup ''k'' (JStr ''A'') []), 0) =
     (Inr (CHR 0x0A # ''A''), ([(''k'', JStr ''A'')], 0))"
proof -
  have t: "truthy (JStr ''A'')" by simp
  have u: "\<not> truthy (get [] ''k'')"
    by (simp add: get_def Object_prototype_def)
  have r: "registerInitializationMarkup ''k'' (JStr ''A'') [] = [(''k'', JStr ''A'')]"
    using u by (simp add: registerInitializationMarkup_def)
  have p: "pure_at script_functions ([(''k'', JStr ''A'')], 0) (JStr ''A'')"
    by (simp add: pure_at_def)
  have g: "generateInitializationMarkup script_functions ([(''k'', JStr ''A'')], 0) =
     (Inr (CHR 0x0A # ''A''), ([(''k'', JStr ''A'')], 0))"
    by (simp add: for_in_def array_index_def digit_value_def get_def)
  show ?thesis
    using registerInitializationMarkup_first_write_wins
            [OF t, of "''k''" "JStr ''B''" "[]" script_functions 0] r g u p
    by (simp add: get_def)
qed

text \<open>
  Claim C1 as stated fails for a falsy first value: after the empty string is
  registered under a name, a second registration under that name replaces it, and the
  output holds the second value. It also fails for a name that the registry object
  inherits, such as \<^verbatim>\<open>constructor\<close>: neither value is stored and the output is empty.
  And the output does not hold the markup of the first value when a function
  registered earlier throws.
\<close>

theorem registerInitializationMarkup_counterexample:
  "registerInitializationMarkup ''k'' (JStr ''B'') (registerInitializationMarkup ''k'' (JStr []) []) =
     [(''k'', JStr ''B'')] \<and>
   get (registerInitializationMarkup ''k'' (JStr ''B'') (registerInitializationMarkup ''k'' (JStr []) []))
     ''k'' \<noteq> JStr [] \<and>
   fst (generateInitializationMarkup script_functions
     (registerInitializationMarkup ''k'' (JStr ''B'')
        (registerInitializationMarkup ''k'' (JStr []) []), 0)) = Inr (CHR 0x0A # ''B'') \<and>
   registerInitializationMarkup ''constructor'' (JStr ''B'')
     (registerInitializationMarkup ''constructor'' (JStr ''A'') []) = [] \<and>
   fst (generateInitializationMarkup script_functions
     (registerInitializationMarkup ''constructor'' (JStr ''B'')
        (registerInitializationMarkup ''constructor'' (JStr ''A'') []), 0)) = Inr [] \<and>
   fst (generateInitializationMarkup throwing_functions
     (registerInitializationMarkup ''k'' (JStr ''B'')
        (registerInitializationMarkup ''k'' (JStr ''A'')
           [(''j'', JFunction 21 ''function () { ... }'')]), 0)) = Inl (Error ''no markup'')"
proof -
  have a: "registerInitializationMarkup ''k'' (JStr ''B'')
      (registerInitializationMarkup ''k'' (JStr []) []) = [(''k'', JStr ''B'')]"
    by (simp add: registerInitializationMarkup_def get_def Object_prototype_def)
  have b: "registerInitializationMarkup ''constructor'' (JStr ''B'')
     (registerInitializationMarkup ''constructor'' (JStr ''A'') []) = []"
    by (simp add: registerInitializationMarkup_def get_def Object_prototype_def)
  have c: "registerInitializationMarkup ''k'' (JStr ''B'')
        (registerInitializationMarkup ''k'' (JStr ''A'')
           [(''j'', JFunction 21 ''function () { ... }'')]) =
        [(''j'', JFunction 21 ''function () { ... }''), (''k'', JStr ''A'')]"
    by (simp add: registerInitializationMarkup_def get_def Object_prototype_def)
  have k: "for_in [(''k'', JStr ''B'')] = [''k'']"
    "for_in [(''j'', JFunction 21 ''function () { ... }''), (''k'', JStr ''A'')] = [''j'', ''k'']"
    by (simp_all add: for_in_def array_index_def digit_value_def)
  show ?thesis
    unfolding a b c
    by (simp add: k get_def for_in_def throwing_functions_def)
qed

section \<open>Properties of the renderers\<close>

text \<open>
  Claim C9. In both renderers \<^verbatim>\<open>field(field, path, value, raw, errors)\<close> returns exactly
  \<^verbatim>\<open>field.widget.toHTML(path.join('.'), value, raw, field)\<close>, with no row, label,
  description, hint or error markup around it, when \<^verbatim>\<open>field.widget.type\<close> is
  \<^verbatim>\<open>'hidden'\<close>.
\<close>

theorem field_hidden_bare:
  assumes "strict_eq (widget.type (widget field)) (JStr ''hidden'')"
  shows "table_field toHTML this field path value raw errors =
           toHTML (widget field) (join ''.'' path) value raw field \<and>
         div_field toHTML this' field path value raw errors =
           toHTML (widget field) (join ''.'' path) value raw field"
  using assms by (simp add: table_field_def div_field_def)

theorem field_hidden_witness:
  \<open>strict_eq (widget.type (widget hidden_field)) (JStr ''hidden'') \<and>
   table_field input_toHTML \<lparr>depth = 1, initializationMarkupForEmbed = JNull\<rparr> hidden_field
     [''root'', ''id''] (JNum 42) JNull (Some [\<lparr>message = JStr ''bad'', toString = ''Error: bad''\<rparr>]) =
     ''<input name="root.id" value="42">'' \<and>
   div_field input_toHTML \<lparr>depth = 1\<rparr> hidden_field
     [''root'', ''id''] (JNum 42) JNull (Some [\<lparr>message = JStr ''bad'', toString = ''Error: bad''\<rparr>]) =
     ''<input name="root.id" value="42">''\<close>
proof -
  have h: "strict_eq (widget.type (widget hidden_field)) (JStr ''hidden'')"
    by (simp add: hidden_field_def)
  have n: "string_of_int 42 = ''42''"
    by (simp add: string_of_int_def string_of_nat.simps digit_def)
  show ?thesis
    using h field_hidden_bare [OF h, of input_toHTML
        "\<lparr>depth = 1, initializationMarkupForEmbed = JNull\<rparr>" "[''root'', ''id'']" "JNum 42" JNull
        "Some [\<lparr>message = JStr ''bad'', toString = ''Error: bad''\<rparr>]" "\<lparr>depth = 1\<rparr>"]
    by (simp add: input_toHTML_def n)
qed

text \<open>The counter along a pass.\<close>

lemma table_call_depth:
  "depth (fst (snd (table_call toHTML c s))) =
     (case c of BeginGroup p \<Rightarrow> depth (fst s) + 1 | EndGroup p \<Rightarrow> depth (fst s) - 1
      | _ \<Rightarrow> depth (fst s))"
  by (cases s; cases c)
     (simp_all add: table_beginGroup_def table_endGroup_def Let_def case_prod_beta)

lemma div_call_depth:
  "depth (fst (snd (div_call toHTML c s))) =
     (case c of BeginGroup p \<Rightarrow> depth (fst s) + 1 | EndGroup p \<Rightarrow> depth (fst s) - 1
      | _ \<Rightarrow> depth (fst s))"
  by (cases s; cases c)
     (simp_all add: div_beginGroup_def div_endGroup_def Let_def case_prod_beta)

lemma balanced_step:
  "balanced k (c # cs) \<Longrightarrow>
     \<exists>k'. balanced k' cs \<and>
          int k' = (case c of BeginGroup p \<Rightarrow> int k + 1 | EndGroup p \<Rightarrow> int k - 1 | _ \<Rightarrow> int k)"
  by (cases c; cases k) auto

lemma table_calls_depth:
  "balanced k cs \<Longrightarrow> depth (fst s) = int k \<Longrightarrow>
     depth (fst (table_calls toHTML cs s)) = 0 \<and>
     (\<forall>n\<le>length cs. 0 \<le> depth (fst (table_calls toHTML (take n cs) s)))"
proof (induction cs arbitrary: k s)
  case Nil
  then show ?case by simp
next
  case (Cons c cs)
  from balanced_step [OF Cons.prems(1)] obtain k' where
    b: "balanced k' cs" and
    k': "int k' = (case c of BeginGroup p \<Rightarrow> int k + 1 | EndGroup p \<Rightarrow> int k - 1 | _ \<Rightarrow> int k)"
    by blast
  have d: "depth (fst (snd (table_call toHTML c s))) = int k'"
    by (simp add: table_call_depth k' Cons.prems(2) split: call.split)
  note ih = Cons.IH [OF b d]
  have "0 \<le> depth (fst (table_calls toHTML (take n (c # cs)) s))" if "n \<le> length (c # cs)" for n
  proof (cases n)
    case 0
    then show ?thesis by (simp add: Cons.prems(2))
  next
    case (Suc m)
    with that ih show ?thesis by simp
  qed
  with ih show ?case by simp
qed

lemma div_calls_depth:
  "balanced k cs \<Longrightarrow> depth (fst s) = int k \<Longrightarrow>
     depth (fst (div_calls toHTML cs s)) = 0 \<and>
     (\<forall>n\<le>length cs. 0 \<le> depth (fst (div_calls toHTML (take n cs) s)))"
proof (induction cs arbitrary: k s)
  case Nil
  then show ?case by simp
next
  case (Cons c cs)
  from balanced_step [OF Cons.prems(1)] obtain k' where
    b: "balanced k' cs" and
    k': "int k' = (case c of BeginGroup p \<Rightarrow> int k + 1 | EndGroup p \<Rightarrow> int k - 1 | _ \<Rightarrow> int k)"
    by blast
  have d: "depth (fst (snd (div_call toHTML c s))) = int k'"
    by (simp add: div_call_depth k' Cons.prems(2) split: call.split)
  note ih = Cons.IH [OF b d]
  have "0 \<le> depth (fst (div_calls toHTML (take n (c # cs)) s))" if "n \<le> length (c # cs)" for n
  proof (cases n)
    case 0
    then show ?thesis by (simp add: Cons.prems(2))
  next
    case (Suc m)
    with that ih show ?thesis by simp
  qed
  with ih show ?case by simp
qed

text \<open>
  Claim C7. In both renderers the counter \<open>depth\<close> is 0 right after \<^verbatim>\<open>start()\<close>, every
  \<^verbatim>\<open>beginGroup\<close> adds exactly 1 to it and every \<^verbatim>\<open>endGroup\<close> takes exactly 1 from it;
  so along every balanced, properly nested sequence of calls after \<^verbatim>\<open>start()\<close> the
  counter is never negative (after every prefix of the sequence), and it is 0 after
  the whole sequence, when \<^verbatim>\<open>end()\<close> is called.
\<close>

theorem depth_balanced:
  assumes "balanced 0 cs"
  shows "depth (snd (table_start t)) = 0 \<and>
         depth (snd (table_beginGroup t path)) = depth t + 1 \<and>
         depth (snd (table_endGroup t path)) = depth t - 1 \<and>
         (\<forall>n\<le>length cs.
            0 \<le> depth (fst (table_calls toHTML (take n cs) (snd (table_start t), reg)))) \<and>
         depth (fst (table_calls toHTML cs (snd (table_start t), reg))) = 0 \<and>
         depth (snd (div_start d)) = 0 \<and>
         depth (snd (div_beginGroup d path)) = depth d + 1 \<and>
         depth (snd (div_endGroup d path)) = depth d - 1 \<and>
         (\<forall>n\<le>length cs.
            0 \<le> depth (fst (div_calls toHTML (take n cs) (snd (div_start d), reg)))) \<and>
         depth (fst (div_calls toHTML cs (snd (div_start d), reg))) = 0"
proof -
  have t0: "depth (fst (snd (table_start t), reg)) = int 0"
    by (simp add: table_start_def)
  have d0: "depth (fst (snd (div_start d), reg)) = int 0"
    by (simp add: div_start_def)
  have steps:
    "depth (snd (table_start t)) = 0"
    "depth (snd (table_beginGroup t path)) = depth t + 1"
    "depth (snd (table_endGroup t path)) = depth t - 1"
    "depth (snd (div_start d)) = 0"
    "depth (snd (div_beginGroup d path)) = depth d + 1"
    "depth (snd (div_endGroup d path)) = depth d - 1"
    by (simp_all add: table_start_def table_beginGroup_def table_endGroup_def
          div_start_def div_beginGroup_def div_endGroup_def Let_def)
  from steps table_calls_depth [OF assms t0, of toHTML] div_calls_depth [OF assms d0, of toHTML]
  show ?thesis by blast
qed

lemma example_pass_balanced: "balanced 0 example_pass"
  by (simp add: example_pass_def)

theorem depth_balanced_witness:
  "balanced 0 example_pass \<and>
   depth (fst (table_calls input_toHTML example_pass
      (snd (table_start \<lparr>depth = 7, initializationMarkupForEmbed = JNull\<rparr>), []))) = 0 \<and>
   depth (fst (table_calls input_toHTML (take 3 example_pass)
      (snd (table_start \<lparr>depth = 7, initializationMarkupForEmbed = JNull\<rparr>), []))) = 2 \<and>
   depth (fst (div_calls input_toHTML example_pass (snd (div_start \<lparr>depth = 7\<rparr>), []))) = 0"
proof -
  have three: "depth (fst (table_calls input_toHTML (take 3 example_pass)
      (snd (table_start \<lparr>depth = 7, initializationMarkupForEmbed = JNull\<rparr>), []))) = 2"
    by (simp add: example_pass_def table_start_def table_beginGroup_def Let_def)
  show ?thesis
    using depth_balanced [OF example_pass_balanced, of
        "\<lparr>depth = 7, initializationMarkupForEmbed = JNull\<rparr>" "[]" input_toHTML "[]" "\<lparr>depth = 7\<rparr>"]
      example_pass_balanced three
    by simp
qed

text \<open>The registry along a pass: the table renderer registers the entry of the embed
  fields once, whatever the number of embed and embedList fields it visits; the div
  renderer never writes to the registry.\<close>

lemma fold_append_concat:
  "fold (\<lambda>v html. html @ f v) vs html = html @ concat (map f vs)"
  by (induction vs arbitrary: html) simp_all

lemma registered_key:
  assumes "map_of Object_prototype key = None"
  shows "key \<in> fst ` set (registerInitializationMarkup key v reg)"
proof (cases "truthy (get reg key)")
  case True
  with assms have "map_of reg key \<noteq> None"
    by (cases "map_of reg key") (simp_all add: get_def)
  then show ?thesis
    using True by (simp add: registerInitializationMarkup_def map_of_eq_None_iff)
next
  case False
  then show ?thesis
    by (simp add: registerInitializationMarkup_def dom_update)
qed

lemma registered_keys_grow:
  "fst ` set reg \<subseteq> fst ` set (registerInitializationMarkup key v reg)"
  by (auto simp add: registerInitializationMarkup_def dom_update)

lemma one_entry_named:
  "distinct (map fst reg) \<Longrightarrow> key \<in> fst ` set reg \<Longrightarrow> length (entries_named key reg) = 1"
proof (induction reg)
  case Nil
  then show ?case by simp
next
  case (Cons entry reg)
  show ?case
  proof (cases "fst entry = key")
    case True
    with Cons.prems(1) have "key \<notin> fst ` set reg"
      by simp
    then have "\<forall>e\<in>set reg. fst e \<noteq> key"
      by (auto simp add: image_iff)
    then have "filter (\<lambda>e. fst e = key) reg = []"
      by (simp add: filter_empty_conv)
    with True show ?thesis by (simp add: entries_named_def)
  next
    case False
    with Cons show ?thesis by (auto simp add: entries_named_def)
  qed
qed

lemma table_call_registry:
  "snd (snd (table_call toHTML c (this, reg))) =
     (if is_embed c
      then registerInitializationMarkup ''built-in embed/embedList''
             (initializationMarkupForEmbed this) reg
      else reg) \<and>
   initializationMarkupForEmbed (fst (snd (table_call toHTML c (this, reg)))) =
     initializationMarkupForEmbed this"
  by (cases c)
     (simp_all add: table_beginGroup_def table_endGroup_def table_embed_def
        table_embedList_def Let_def case_prod_beta)

lemma table_calls_keys:
  "distinct (map fst (snd s)) \<Longrightarrow>
     distinct (map fst (snd (table_calls toHTML cs s))) \<and>
     fst ` set (snd s) \<subseteq> fst ` set (snd (table_calls toHTML cs s)) \<and>
     ((\<exists>c\<in>set cs. is_embed c) \<longrightarrow>
        ''built-in embed/embedList'' \<in> fst ` set (snd (table_calls toHTML cs s)))"
proof (induction cs arbitrary: s)
  case Nil
  then show ?case by simp
next
  case (Cons c cs)
  obtain this reg where s: "s = (this, reg)" by (cases s)
  let ?s' = "snd (table_call toHTML c (this, reg))"
  have r: "snd ?s' =
     (if is_embed c
      then registerInitializationMarkup ''built-in embed/embedList''
             (initializationMarkupForEmbed this) reg
      else reg)"
    using table_call_registry [of toHTML c this reg] by simp
  have d: "distinct (map fst (snd ?s'))"
    unfolding r using Cons.prems [unfolded s]
    by (simp add: distinct_registerInitializationMarkup)
  have g: "fst ` set reg \<subseteq> fst ` set (snd ?s')"
    unfolding r using registered_keys_grow by simp
  have "map_of Object_prototype ''built-in embed/embedList'' = None"
    by (simp add: Object_prototype_def)
  then have k: "is_embed c \<Longrightarrow> ''built-in embed/embedList'' \<in> fst ` set (snd ?s')"
    unfolding r using registered_key by simp
  from Cons.IH [OF d] g k show ?case
    unfolding s by (simp only: table_calls.simps list.set bex_simps insert_iff snd_conv) blast
qed

lemma table_calls_register_once:
  assumes "distinct (map fst reg)" and "\<exists>c\<in>set cs. is_embed c"
  shows "length (entries_named ''built-in embed/embedList''
           (snd (table_calls toHTML cs (this, reg)))) = 1"
  using table_calls_keys [of "(this, reg)" toHTML cs] assms
  by (simp add: one_entry_named)

lemma div_call_registry: "snd (snd (div_call toHTML c (this, reg))) = reg"
  by (cases c) (simp_all add: case_prod_beta)

lemma div_calls_registry: "snd (div_calls toHTML cs s) = snd s"
proof (induction cs arbitrary: s)
  case Nil
  show ?case by simp
next
  case (Cons c cs)
  obtain this reg where s: "s = (this, reg)" by (cases s)
  show ?case by (simp add: Cons.IH s div_call_registry)
qed

text \<open>
  Claim C2, at the input where the code departs from it. A pass of the div renderer
  over an embed and an embedList field, from an empty registry, leaves the registry
  empty: no entry is registered under \<^verbatim>\<open>built-in embed/embedList\<close>. The same pass of
  the table renderer leaves exactly one, the renderer's
  \<^verbatim>\<open>initializationMarkupForEmbed\<close>.
\<close>

theorem div_embed_registers_nothing:
  "snd (div_calls input_toHTML embed_pass (snd (div_start \<lparr>depth = 0\<rparr>), [])) = [] \<and>
   entries_named ''built-in embed/embedList''
     (snd (div_calls input_toHTML embed_pass (snd (div_start \<lparr>depth = 0\<rparr>), []))) = [] \<and>
   entries_named ''built-in embed/embedList''
     (snd (table_calls input_toHTML embed_pass
        (snd (table_start \<lparr>depth = 0, initializationMarkupForEmbed = bind_embed\<rparr>), []))) =
     [(''built-in embed/embedList'', bind_embed)]"
  by (simp add: div_calls_registry entries_named_def embed_pass_def table_embed_def
        table_embedList_def registerInitializationMarkup_def get_def Let_def bind_embed_def
        table_start_def div_start_def Object_prototype_def)

text \<open>The markup of an embedList field: in the table renderer the unit of each element
  holds the widget's markup for that element; in the div renderer every unit holds the
  widget's markup for the whole list.\<close>

lemma table_embedList_units:
  \<open>fst (table_embedList toHTML this reg field path (JArray r vs) raw errors) =
     (''<tr class="embeddedlist">'' @
        ''<th>'' @
          labelHTML (field.type field) (join '' '' (slice path (depth this))) JUndefined @
          descriptionHTML (field.type field) @
        ''</th>'' @
        ''<td class="field" rel="'' @ to_str (descr.name (field.type field)) @ ''">'' @
        ''<table rel="'' @ join ''.'' path @ ''"><tbody>'') @
     concat (map (\<lambda>v.
        ''<tr><td>'' @ toHTML (widget field) (join ''.'' path) v raw field @
        ''</td><td class="actions"></td></tr>'') vs) @
     (''</tbody></table></td>'' @ ''<td class="errors">'' @ errorHTML errors @ ''</td>'' @ ''</tr>'')\<close>
  by (simp add: table_embedList_def Let_def fold_append_concat)

lemma div_embedList_units:
  \<open>div_embedList toHTML this field path (JArray r vs) raw errors =
     (''<div class="'' @ join '' '' (classes (field.type field) errors) @ ''">'' @
      ''<div class="embeddedlist">'' @
        ''<div class="label">'' @
          ''<label for="'' @ join ''.'' path @ ''">'' @
            labelHTML (field.type field) (join '' '' (slice path (depth this))) JUndefined @
            descriptionHTML (field.type field) @
          ''</label>'' @
        ''</div>'' @
        ''<div class="content" rel="'' @ to_str (descr.name (field.type field)) @ ''">'') @
     concat (map (\<lambda>v.
        ''<div class="item" rel="'' @ join ''.'' path @ ''">'' @
          ''<div class="inner">'' @
            toHTML (widget field) (join ''.'' path) (JArray r vs) raw field @
          ''</div>'' @
          ''<div class="actions"></div>'' @
        ''</div>'') vs) @
     (''<div class="errors">'' @ errorHTML errors @ ''</div>'' @ ''</div>'' @ ''</div>'' @ ''</div>'')\<close>
  by (simp add: div_embedList_def Let_def fold_append_concat)

text \<open>
  Claim C3, at the input where the code departs from it. For the list of the two
  strings \<^verbatim>\<open>a\<close> and \<^verbatim>\<open>b\<close>, \<^verbatim>\<open>embedList\<close> of the div renderer renders two units that
  both hold the widget's markup for the whole list (value \<^verbatim>\<open>a,b\<close>); the table
  renderer renders one unit for \<^verbatim>\<open>a\<close> and one for \<^verbatim>\<open>b\<close>.
\<close>

theorem div_embedList_whole_value:
  \<open>div_embedList input_toHTML \<lparr>depth = 0\<rparr> tags_field [''tags'']
     (JArray 1 [JStr ''a'', JStr ''b'']) JNull None =
     ''<div class="field"><div class="embeddedlist"><div class="label"><label for="tags"><label for="id_tags">Tags</label></label></div><div class="content" rel="tag"><div class="item" rel="tags"><div class="inner"><input name="tags" value="a,b"></div><div class="actions"></div></div><div class="item" rel="tags"><div class="inner"><input name="tags" value="a,b"></div><div class="actions"></div></div><div class="errors"></div></div></div></div>'' \<and>
   fst (table_embedList input_toHTML \<lparr>depth = 0, initializationMarkupForEmbed = bind_embed\<rparr> []
     tags_field [''tags''] (JArray 1 [JStr ''a'', JStr ''b'']) JNull None) =
     ''<tr class="embeddedlist"><th><label for="id_tags">Tags</label></th><td class="field" rel="tag"><table rel="tags"><tbody><tr><td><input name="tags" value="a"></td><td class="actions"></td></tr><tr><td><input name="tags" value="b"></td><td class="actions"></td></tr></tbody></table></td><td class="errors"></td></tr>''\<close>
  by (simp add: div_embedList_def table_embedList_def Let_def input_toHTML_def tags_field_def
        tag_type_def classes_def labelHTML_def labelText_def capitalized_def toUpperCase_def
        replace_underscores_def descriptionHTML_def errorHTML_def or_js_def slice_def)

end
